theory Spec2Isabelle
  imports Main "HOL-Library.Word"
begin

section \<open>Data model of the secure connection layer (connection\_https.c)\<close>

text \<open>
  The C types are read on an LP64 platform: \<open>size_t\<close> and \<open>time_t\<close> are 64-bit,
  \<open>unsigned int\<close> is 32-bit, \<open>unsigned char\<close> is 8-bit. \<open>time_t\<close> is signed and is
  read with \<open>sint\<close>. File descriptors and \<open>int\<close> return values are only assigned and
  compared with constants, so they are plain integers.
\<close>

type_synonym byte = "8 word"
type_synonym size_t = "64 word"
type_synonym time_t = "64 word"

definition MHD_YES :: int where
  "MHD_YES = 1"

definition MHD_NO :: int where
  "MHD_NO = 0"

text \<open>\<open>content_type_t\<close> of gnutls\_int.h: the record types, numbered from 20.\<close>

definition GNUTLS_CHANGE_CIPHER_SPEC :: byte where
  "GNUTLS_CHANGE_CIPHER_SPEC = 20"

definition GNUTLS_ALERT :: byte where
  "GNUTLS_ALERT = 21"

definition GNUTLS_HANDSHAKE :: byte where
  "GNUTLS_HANDSHAKE = 22"

definition GNUTLS_APPLICATION_DATA :: byte where
  "GNUTLS_APPLICATION_DATA = 23"

definition GNUTLS_INNER_APPLICATION :: byte where
  "GNUTLS_INNER_APPLICATION = 24"

text \<open>
  The alert constants are declared in the TLS library's public header, which is not among
  the sources; the handler only compares \<open>last_alert\<close> with them, so they are carried as
  the two numbers the TLS alert protocol assigns (close\_notify 0, level fatal 2).
\<close>

definition GNUTLS_A_CLOSE_NOTIFY :: int where
  "GNUTLS_A_CLOSE_NOTIFY = 0"

definition GNUTLS_AL_FATAL :: int where
  "GNUTLS_AL_FATAL = 2"

datatype valid_session_t = VALID_TRUE | VALID_FALSE

datatype resumable_session_t = RESUME_TRUE | RESUME_FALSE

text \<open>
  The two state enumerations are declared in internal.h, which is not among the sources.
  Each datatype has the enumerators the code names and one more constructor for every
  other value of the C type: the \<open>default\<close> branch of a \<open>switch\<close> over it. For the
  secure sub-state, a comment of the secure write handler names one such value,
  \<open>MHDS_REPLY_SENDING\<close>.
\<close>

datatype MHD_CONNECTION_STATE =
    MHD_CONNECTION_INIT
  | MHD_CONNECTION_CLOSED
  | MHD_CONNECTION_UNLISTED nat

datatype MHDS_CONNECTION_STATE =
    MHDS_CONNECTION_INIT
  | MHDS_HANDSHAKE_FAILED
  | MHDS_HANDSHAKE_COMPLETE
  | MHDS_CONNECTION_CLOSED
  | MHDS_STATE_UNLISTED

text \<open>
  The termination codes handed to the completion notifier; their declaration is not among
  the sources either. The code uses \<open>MHD_REQUEST_TERMINATED_WITH_ERROR\<close> only; the
  other two enumerators are the ones the interface description names.
\<close>

datatype MHD_RequestTerminationCode =
    MHD_REQUEST_TERMINATED_WITH_ERROR
  | MHD_REQUEST_TERMINATED_TIMEOUT_REACHED
  | MHD_REQUEST_TERMINATED_DAEMON_SHUTDOWN

text \<open>Function pointers are the names of the functions they can point to.\<close>

datatype transport_fn = MHDS_con_read_fn | MHDS_con_write_fn

datatype handler_fn =
    MHD_connection_handle_read_fn
  | MHD_connection_handle_write_fn
  | MHD_connection_handle_idle_fn
  | MHDS_connection_handle_read_fn
  | MHDS_connection_handle_write_fn
  | MHDS_connection_handle_idle_fn

text \<open>The fields of \<open>tls_session->internals\<close> that connection\_https.c touches.\<close>

record tls_internals =
  last_alert :: int
  read_eof :: int
  resumable :: resumable_session_t
  valid_connection :: valid_session_t

text \<open>
  \<open>notify_completed\<close> is \<open>None\<close> for a NULL pointer. A registered notifier receives
  the termination code and the address of \<open>client_context\<close>, so it is the function that
  gives the new \<open>client_context\<close>.
\<close>

record MHD_Daemon =
  connection_timeout :: "32 word"
  notify_completed :: "(MHD_RequestTerminationCode \<Rightarrow> nat \<Rightarrow> nat) option"

record MHD_Connection =
  daemon :: MHD_Daemon
  socket_fd :: int
  state :: MHD_CONNECTION_STATE
  s_state :: MHDS_CONNECTION_STATE
  last_activity :: time_t
  client_context :: nat
  read_buffer_offset :: size_t
  read_buffer_size :: size_t
  write_buffer_send_offset :: size_t
  write_buffer_append_offset :: size_t
  tls_session :: tls_internals
  recv_cls :: "transport_fn option"
  send_cls :: "transport_fn option"
  read_handler :: "handler_fn option"
  write_handler :: "handler_fn option"
  idle_handler :: "handler_fn option"

text \<open>What a handler does to the outside world, in the order it does it.\<close>

datatype event =
    Ev_SHUTDOWN int
  | Ev_CLOSE int
  | Ev_notify_completed MHD_RequestTerminationCode
  | Ev_recv_peek int
  | Ev_gnutls_recv_int
  | Ev_gnutls_bye
  | Ev_gnutls_deinit
  | Ev_gnutls_handshake
  | Ev_MHD_connection_handle_read

text \<open>
  What the outside world answers during one call of a handler: the clock, the result of
  peeking one byte of the socket (\<open>peek_ret\<close> is the return value of \<open>recv\<close>,
  \<open>peek_msg_type\<close> the content of \<open>msg_type\<close> after it: the byte read, or whatever the
  uninitialised variable holds when none was), the alert the record layer decrypts, and
  the return value of the handshake.
\<close>

record environment =
  time_now :: time_t
  peek_ret :: int
  peek_msg_type :: byte
  alert_received :: int
  handshake_ret :: int

section \<open>The functions of connection\_https.c\<close>

definition connection_close_error :: "MHD_Connection \<Rightarrow> MHD_Connection \<times> event list" where
  "connection_close_error c =
    (let fd = socket_fd c;
         c1 = c\<lparr>socket_fd := - 1, state := MHD_CONNECTION_CLOSED\<rparr>
     in case notify_completed (daemon c1) of
          None \<Rightarrow> (c1, [Ev_SHUTDOWN fd, Ev_CLOSE fd])
        | Some f \<Rightarrow>
            (c1\<lparr>client_context := f MHD_REQUEST_TERMINATED_WITH_ERROR (client_context c1)\<rparr>,
             [Ev_SHUTDOWN fd, Ev_CLOSE fd,
              Ev_notify_completed MHD_REQUEST_TERMINATED_WITH_ERROR]))"

text \<open>
  The body shared by the four \<open>case\<close> labels of the idle handler's \<open>switch\<close>:
  \<open>if (connection->socket_fd != -1) connection_close_error (connection);\<close>
\<close>

definition close_open_socket :: "MHD_Connection \<Rightarrow> MHD_Connection \<times> event list" where
  "close_open_socket c = (if socket_fd c \<noteq> - 1 then connection_close_error c else (c, []))"

text \<open>
  \<open>MHDS_connection_handle_idle\<close>. The \<open>switch\<close> has no \<open>break\<close> between its four
  labels, so each of them reaches the shared body, \<open>MHDS_HANDSHAKE_FAILED\<close> after setting
  \<open>socket_fd\<close> to -1. \<open>time (NULL) - timeout\<close> is computed in \<open>time_t\<close> (the
  \<open>unsigned int\<close> is widened) and compared as a signed number.
\<close>

definition MHDS_connection_handle_idle ::
  "environment \<Rightarrow> MHD_Connection \<Rightarrow> int \<times> MHD_Connection \<times> event list" where
  "MHDS_connection_handle_idle env c =
    (let (c1, t1) =
           (case s_state c of
              MHDS_HANDSHAKE_FAILED \<Rightarrow> close_open_socket (c\<lparr>socket_fd := - 1\<rparr>)
            | MHDS_CONNECTION_INIT \<Rightarrow> close_open_socket c
            | MHDS_HANDSHAKE_COMPLETE \<Rightarrow> close_open_socket c
            | MHDS_CONNECTION_CLOSED \<Rightarrow> close_open_socket c
            | MHDS_STATE_UNLISTED \<Rightarrow> (c, []));
         timeout = connection_timeout (daemon c1)
     in if socket_fd c1 \<noteq> - 1 \<and> timeout \<noteq> 0
           \<and> sint (last_activity c1) < sint (time_now env - ucast timeout)
        then (let (c2, t2) = connection_close_error c1 in (MHD_NO, c2, t1 @ t2))
        else (MHD_YES, c1, t1))"

text \<open>
  The \<open>GNUTLS_ALERT\<close> branch of the read handler, after \<open>_gnutls_recv_int\<close> has
  stored the decrypted alert in \<open>last_alert\<close>.
\<close>

definition handle_alert :: "MHD_Connection \<Rightarrow> int \<times> MHD_Connection \<times> event list" where
  "handle_alert c =
    (let a = last_alert (tls_session c)
     in if a = GNUTLS_A_CLOSE_NOTIFY
        then (MHD_YES,
              c\<lparr>tls_session := (tls_session c)\<lparr>read_eof := 1\<rparr>, socket_fd := - 1\<rparr>,
              [Ev_gnutls_bye, Ev_gnutls_deinit])
        else if a \<noteq> GNUTLS_AL_FATAL
        then (MHD_YES, c, [])
        else if a = GNUTLS_AL_FATAL
        then (MHD_NO,
              c\<lparr>tls_session := (tls_session c)\<lparr>resumable := RESUME_FALSE,
                                                valid_connection := VALID_FALSE\<rparr>,
                socket_fd := - 1\<rparr>,
              [Ev_gnutls_deinit])
        else (MHD_NO, c, []))"

text \<open>
  \<open>MHDS_connection_handle_read\<close>. \<open>MHD_connection_handle_read\<close>, the plain HTTP read
  handler, is not among the sources and is the parameter \<open>http_read\<close>: it gives the
  return value, the connection it leaves and what it did.
\<close>

definition MHDS_connection_handle_read ::
  "environment \<Rightarrow> (MHD_Connection \<Rightarrow> int \<times> MHD_Connection \<times> event list)
     \<Rightarrow> MHD_Connection \<Rightarrow> int \<times> MHD_Connection \<times> event list" where
  "MHDS_connection_handle_read env http_read c0 =
    (let c = c0\<lparr>last_activity := time_now env\<rparr>
     in if s_state c = MHDS_CONNECTION_CLOSED then (MHD_NO, c, [])
        else if peek_ret env = - 1 then (MHD_NO, c, [Ev_recv_peek (socket_fd c)])
        else
          (let msg_type = peek_msg_type env; peek = Ev_recv_peek (socket_fd c)
           in if msg_type = GNUTLS_CHANGE_CIPHER_SPEC then (MHD_YES, c, [peek])
              else if msg_type = GNUTLS_ALERT then
                (let c1 = c\<lparr>tls_session := (tls_session c)\<lparr>last_alert := alert_received env\<rparr>\<rparr>;
                     (r, c2, t) = handle_alert c1
                 in (r, c2, [peek, Ev_gnutls_recv_int] @ t))
              else if msg_type = GNUTLS_APPLICATION_DATA then
                (let (r, c1, t) = http_read c
                 in (r, c1, [peek, Ev_MHD_connection_handle_read] @ t))
              else if msg_type = GNUTLS_HANDSHAKE then
                (if handshake_ret env = 0
                 then (MHD_YES,
                       c\<lparr>s_state := MHDS_HANDSHAKE_COMPLETE, state := MHD_CONNECTION_INIT\<rparr>,
                       [peek, Ev_gnutls_handshake])
                 else (MHD_NO,
                       c\<lparr>s_state := MHDS_HANDSHAKE_FAILED, socket_fd := - 1\<rparr>,
                       [peek, Ev_gnutls_handshake, Ev_gnutls_bye, Ev_gnutls_deinit]))
              else if msg_type = GNUTLS_INNER_APPLICATION then (MHD_YES, c, [peek])
              else (MHD_YES, c, [peek])))"

definition MHD_set_https_calbacks :: "MHD_Connection \<Rightarrow> MHD_Connection" where
  "MHD_set_https_calbacks c =
     c\<lparr>recv_cls := Some MHDS_con_read_fn,
       send_cls := Some MHDS_con_write_fn,
       read_handler := Some MHDS_connection_handle_read_fn,
       write_handler := Some MHD_connection_handle_write_fn,
       idle_handler := Some MHD_connection_handle_idle_fn\<rparr>"


subsection \<open>The record transport\<close>

text \<open>
  Memory behind \<open>read_buffer\<close>, addressed in bytes from the start of the buffer: address
  \<open>i\<close> is \<open>&read_buffer[i]\<close>, and the addresses from \<open>read_buffer_size\<close> on lie past
  the end of the buffer.
\<close>

type_synonym memory = "nat \<Rightarrow> byte"

fun store_bytes :: "memory \<Rightarrow> nat \<Rightarrow> byte list \<Rightarrow> memory" where
  "store_bytes mem a [] = mem"
| "store_bytes mem a (b # bs) = store_bytes (mem(a := b)) (Suc a) bs"

text \<open>
  \<open>MHDS_con_read\<close>. \<open>gnutls_record_recv (session, data, sizeofdata)\<close> belongs to the
  record layer and is a parameter: for the \<open>sizeofdata\<close> it is called with, it gives its
  return value and the bytes it stores at \<open>data\<close>. The call passes
  \<open>&read_buffer[read_buffer_offset]\<close> as \<open>data\<close> and \<open>read_buffer_size\<close> as
  \<open>sizeofdata\<close>.
\<close>

definition MHDS_con_read ::
  "(size_t \<Rightarrow> int \<times> byte list) \<Rightarrow> MHD_Connection \<Rightarrow> memory \<Rightarrow> int \<times> memory" where
  "MHDS_con_read gnutls_record_recv c mem =
    (let (n, bytes) = gnutls_record_recv (read_buffer_size c)
     in (n, store_bytes mem (unat (read_buffer_offset c)) bytes))"

text \<open>
  \<open>MHDS_con_write\<close>: \<open>gnutls_record_send\<close>, a parameter as well, is given the address
  \<open>&write_buffer[write_buffer_send_offset]\<close> and the length
  \<open>write_buffer_append_offset - write_buffer_send_offset\<close>, computed in \<open>size_t\<close>.
\<close>

definition MHDS_con_write :: "(nat \<Rightarrow> size_t \<Rightarrow> int) \<Rightarrow> MHD_Connection \<Rightarrow> int" where
  "MHDS_con_write gnutls_record_send c =
     gnutls_record_send (unat (write_buffer_send_offset c))
       (write_buffer_append_offset c - write_buffer_send_offset c)"

text \<open>
  A record layer that holds the decrypted bytes \<open>avail\<close> and hands over as many of them
  as it is asked for.
\<close>

definition record_layer_holding :: "byte list \<Rightarrow> size_t \<Rightarrow> int \<times> byte list" where
  "record_layer_holding avail sizeofdata =
     (int (min (unat sizeofdata) (length avail)), take (unat sizeofdata) avail)"

section \<open>The public interface (microhttpd.h)\<close>

text \<open>
  The header declares the interface; the functions behind it are not among the sources.
\<close>

text \<open>
  Modelled from the spec: the body of \<open>MHD_queue_response\<close> is missing, only its
  declaration is in the header. A session holds a nullable response pointer and the status
  code given when the response was queued; queuing fails if a response is already queued,
  and otherwise records the response and the status code on the session. A response is
  its identifier here. The reference count that queuing increments is left out.
\<close>

record MHD_Session =
  response :: "nat option"
  responseCode :: nat

definition MHD_queue_response :: "MHD_Session \<Rightarrow> nat \<Rightarrow> nat \<Rightarrow> int \<times> MHD_Session" where
  "MHD_queue_response session status_code resp =
    (case response session of
       Some queued \<Rightarrow> (MHD_NO, session)
     | None \<Rightarrow> (MHD_YES, session\<lparr>response := Some resp, responseCode := status_code\<rparr>))"

text \<open>
  The attempts to queue a response that a handler makes during one request, in order:
  the return value of each and the session they leave.
\<close>

fun queue_responses :: "MHD_Session \<Rightarrow> (nat \<times> nat) list \<Rightarrow> int list \<times> MHD_Session" where
  "queue_responses session [] = ([], session)"
| "queue_responses session ((status_code, resp) # rest) =
    (let (ret, s1) = MHD_queue_response session status_code resp;
         (rets, s2) = queue_responses s1 rest
     in (ret # rets, s2))"

text \<open>
  Modelled from the spec: the routine that streams the body of a callback response is
  missing. It calls \<open>reader(pos, buf, max)\<close> with the current position; a positive return
  is appended to the write buffer and moves the position on by that much, a return of 0
  leaves the position where it is and the reader is asked again, and a negative return
  (the spec names -1) ends the stream. \<open>reader_calls pos ns\<close> is the list of calls made
  from position \<open>pos\<close> on, each with the position passed and the value returned, when
  the reader answers \<open>ns\<close> one call after the other.
\<close>

fun reader_calls :: "nat \<Rightarrow> int list \<Rightarrow> (nat \<times> int) list" where
  "reader_calls pos [] = []"
| "reader_calls pos (n # ns) =
     (pos, n) # (if n < 0 then [] else reader_calls (pos + nat n) ns)"

text \<open>
  Modelled from the spec: the body of \<open>MHD_create_response_from_data\<close> and the routine
  that transmits a buffer response are missing. The body source of a buffer response is a
  contiguous byte buffer with an ownership policy: with \<open>must_copy\<close> the response holds
  its own copy of the \<open>len\<close> bytes at \<open>data\<close>, made at creation; without it the
  response borrows the caller's buffer (and frees it on destruction if \<open>must_free\<close>).
  \<open>transmitted_bytes mem body\<close> is what goes on the wire when the caller's memory is
  \<open>mem\<close> at the time of transmission.
\<close>

datatype body_source = Copied "byte list" | Borrowed nat nat bool

definition MHD_create_response_from_data ::
  "memory \<Rightarrow> nat \<Rightarrow> nat \<Rightarrow> bool \<Rightarrow> bool \<Rightarrow> body_source" where
  "MHD_create_response_from_data mem len data must_free must_copy =
    (if must_copy then Copied (map mem [data ..< data + len])
     else Borrowed data len must_free)"

definition transmitted_bytes :: "memory \<Rightarrow> body_source \<Rightarrow> byte list" where
  "transmitted_bytes mem body =
    (case body of
       Copied bytes \<Rightarrow> bytes
     | Borrowed data len must_free \<Rightarrow> map mem [data ..< data + len])"

section \<open>Example values\<close>

text \<open>
  A secure connection as accepted on descriptor 5, before any handler has run, on a daemon
  with an idle timeout of 10 seconds and a notifier that records the code in
  \<open>client_context\<close>.
\<close>

definition code_number :: "MHD_RequestTerminationCode \<Rightarrow> nat" where
  "code_number k =
    (case k of
       MHD_REQUEST_TERMINATED_WITH_ERROR \<Rightarrow> 1
     | MHD_REQUEST_TERMINATED_TIMEOUT_REACHED \<Rightarrow> 2
     | MHD_REQUEST_TERMINATED_DAEMON_SHUTDOWN \<Rightarrow> 3)"

definition example_daemon :: MHD_Daemon where
  "example_daemon =
    \<lparr>connection_timeout = 10, notify_completed = Some (\<lambda>k ctx. code_number k)\<rparr>"

definition example_connection :: MHD_Connection where
  "example_connection =
    \<lparr>daemon = example_daemon, socket_fd = 5,
     state = MHD_CONNECTION_UNLISTED 0, s_state = MHDS_CONNECTION_INIT,
     last_activity = 1000, client_context = 7,
     read_buffer_offset = 0, read_buffer_size = 8,
     write_buffer_send_offset = 0, write_buffer_append_offset = 0,
     tls_session = \<lparr>last_alert = 0, read_eof = 0,
                    resumable = RESUME_TRUE, valid_connection = VALID_TRUE\<rparr>,
     recv_cls = None, send_cls = None,
     read_handler = None, write_handler = None, idle_handler = None\<rparr>"

definition example_environment :: environment where
  "example_environment =
    \<lparr>time_now = 1005, peek_ret = 1, peek_msg_type = 23,
     alert_received = 0, handshake_ret = 0\<rparr>"

text \<open>A stand-in for the plain HTTP read handler: it reports success and does nothing.\<close>

definition http_read_idle :: "MHD_Connection \<Rightarrow> int \<times> MHD_Connection \<times> event list" where
  "http_read_idle c = (MHD_YES, c, [])"

section \<open>Installing the secure callbacks\<close>

text \<open>
  C9. \<open>MHD_set_https_calbacks\<close> points \<open>recv_cls\<close> and \<open>send_cls\<close> at the TLS record
  functions and \<open>read_handler\<close> at the secure read handler, while \<open>write_handler\<close> and
  \<open>idle_handler\<close> are set to the plain HTTP handlers \<open>MHD_connection_handle_write\<close> and
  \<open>MHD_connection_handle_idle\<close>, not to the secure variants.
\<close>

theorem set_https_callbacks_installs:
  "recv_cls (MHD_set_https_calbacks c) = Some MHDS_con_read_fn
   \<and> send_cls (MHD_set_https_calbacks c) = Some MHDS_con_write_fn
   \<and> read_handler (MHD_set_https_calbacks c) = Some MHDS_connection_handle_read_fn
   \<and> write_handler (MHD_set_https_calbacks c) = Some MHD_connection_handle_write_fn
   \<and> idle_handler (MHD_set_https_calbacks c) = Some MHD_connection_handle_idle_fn
   \<and> write_handler (MHD_set_https_calbacks c) \<noteq> Some MHDS_connection_handle_write_fn
   \<and> idle_handler (MHD_set_https_calbacks c) \<noteq> Some MHDS_connection_handle_idle_fn"
  by (simp add: MHD_set_https_calbacks_def)

section \<open>The secure read handler on a closed connection\<close>

text \<open>
  C10. When the secure sub-state is \<open>MHDS_CONNECTION_CLOSED\<close>, the secure read handler
  returns \<open>MHD_NO\<close> at once: it reads nothing from the socket (it does nothing to the
  outside world at all) and the connection it leaves differs from the one it was given in
  \<open>last_activity\<close> only, which holds the current time.
\<close>

theorem handle_read_closed:
  assumes "s_state c = MHDS_CONNECTION_CLOSED"
  shows "MHDS_connection_handle_read env http_read c
           = (MHD_NO, c\<lparr>last_activity := time_now env\<rparr>, [])"
  using assms by (simp add: MHDS_connection_handle_read_def)

theorem handle_read_closed_witness:
  "s_state (example_connection\<lparr>s_state := MHDS_CONNECTION_CLOSED\<rparr>) = MHDS_CONNECTION_CLOSED
   \<and> MHDS_connection_handle_read example_environment http_read_idle
        (example_connection\<lparr>s_state := MHDS_CONNECTION_CLOSED\<rparr>)
      = (MHD_NO,
         example_connection\<lparr>s_state := MHDS_CONNECTION_CLOSED, last_activity := 1005\<rparr>, [])"
  using handle_read_closed [of "example_connection\<lparr>s_state := MHDS_CONNECTION_CLOSED\<rparr>"
      example_environment http_read_idle]
  by (simp add: example_environment_def)

section \<open>The secure idle handler\<close>

lemma sint_ucast_timeout: "sint (ucast (t :: 32 word) :: 64 word) = uint t"
proof -
  have p: "(2::int) ^ 32 \<le> 2 ^ 63" "(0::int) \<le> 2 ^ 63" by simp_all
  have u: "uint t < 2 ^ 32" using uint_bounded [of t] by simp
  have z: "0 \<le> uint t" by simp
  have "uint t < 2 ^ 63" using u p by linarith
  moreover have "- (2 ^ 63) \<le> uint t" using z p by linarith
  ultimately have "signed_take_bit 63 (uint t) = uint t"
    by (rule signed_take_bit_int_eq_self [rotated])
  then show ?thesis by (simp add: signed_ucast_eq)
qed

text \<open>From a clock that is not negative, subtracting the timeout does not wrap around.\<close>

lemma sint_deadline:
  fixes now :: "64 word" and t :: "32 word"
  assumes "0 \<le> sint now"
  shows "sint (now - ucast t) = sint now - uint t"
proof -
  have p: "(2::int) ^ 32 \<le> 2 ^ 63" by simp
  have u: "uint t < 2 ^ 32" using uint_bounded [of t] by simp
  have z: "0 \<le> uint t" by simp
  have n: "sint now < 2 ^ 63" using sint_lt [of now] by simp
  have lo: "- (2 ^ 63) \<le> sint now - uint t"
    using assms u p by linarith
  have hi: "sint now - uint t < 2 ^ 63"
    using n z by linarith
  have "sint (now - ucast t) = signed_take_bit 63 (sint now - uint t)"
    by (simp add: sint_word_ariths sint_ucast_timeout)
  also have "\<dots> = sint now - uint t"
    using lo hi by (rule signed_take_bit_int_eq_self)
  finally show ?thesis .
qed

lemma connection_close_error_fields:
  "socket_fd (fst (connection_close_error c)) = - 1"
  "state (fst (connection_close_error c)) = MHD_CONNECTION_CLOSED"
  "snd (connection_close_error c) =
     [Ev_SHUTDOWN (socket_fd c), Ev_CLOSE (socket_fd c)]
     @ (if notify_completed (daemon c) = None then []
        else [Ev_notify_completed MHD_REQUEST_TERMINATED_WITH_ERROR])"
  by (simp_all add: connection_close_error_def Let_def split: option.split)

lemma close_open_socket_fd: "socket_fd (fst (close_open_socket c)) = - 1"
  by (simp add: close_open_socket_def connection_close_error_fields)

text \<open>
  In each of the four sub-states the \<open>switch\<close> names, the socket is gone after the
  \<open>switch\<close>, so the timeout test is not reached and the handler returns \<open>MHD_YES\<close>.
\<close>

lemma idle_returns_yes_when_listed:
  assumes "s_state c \<noteq> MHDS_STATE_UNLISTED"
  shows "fst (MHDS_connection_handle_idle env c) = MHD_YES"
  using assms
  by (cases "s_state c")
     (simp_all add: MHDS_connection_handle_idle_def split_beta close_open_socket_fd)

lemma idle_unlisted:
  assumes "s_state c = MHDS_STATE_UNLISTED"
  shows "MHDS_connection_handle_idle env c =
    (if socket_fd c \<noteq> - 1 \<and> connection_timeout (daemon c) \<noteq> 0
         \<and> sint (last_activity c) < sint (time_now env - ucast (connection_timeout (daemon c)))
     then (MHD_NO, fst (connection_close_error c), snd (connection_close_error c))
     else (MHD_YES, c, []))"
  using assms by (simp add: MHDS_connection_handle_idle_def split_beta)

text \<open>
  C2, as the code has it. The idle handler returns \<open>MHD_NO\<close> only from its timeout test.
  When it does, the socket was open, the timeout is not 0 and is exceeded; the socket is
  shut down and closed, \<open>socket_fd\<close> is -1, the HTTP state is \<open>MHD_CONNECTION_CLOSED\<close>,
  and a registered notifier is invoked once, with \<open>MHD_REQUEST_TERMINATED_WITH_ERROR\<close>
  (the only code \<open>connection_close_error\<close> passes), not with
  \<open>MHD_REQUEST_TERMINATED_TIMEOUT_REACHED\<close>.
\<close>

theorem idle_timeout_close_notifies_error:
  assumes "fst (MHDS_connection_handle_idle env c) = MHD_NO"
  shows "case MHDS_connection_handle_idle env c of
           (r, c', tr) \<Rightarrow>
             socket_fd c \<noteq> - 1
             \<and> connection_timeout (daemon c) \<noteq> 0
             \<and> sint (last_activity c) < sint (time_now env - ucast (connection_timeout (daemon c)))
             \<and> socket_fd c' = - 1
             \<and> state c' = MHD_CONNECTION_CLOSED
             \<and> tr = [Ev_SHUTDOWN (socket_fd c), Ev_CLOSE (socket_fd c)]
                    @ (if notify_completed (daemon c) = None then []
                       else [Ev_notify_completed MHD_REQUEST_TERMINATED_WITH_ERROR])"
proof (cases "s_state c = MHDS_STATE_UNLISTED")
  case False
  then have "fst (MHDS_connection_handle_idle env c) = MHD_YES"
    by (rule idle_returns_yes_when_listed)
  with assms show ?thesis by (simp add: MHD_YES_def MHD_NO_def)
next
  case True
  with assms show ?thesis
    by (simp add: idle_unlisted connection_close_error_fields MHD_YES_def MHD_NO_def
          split: if_splits)
qed

theorem idle_timeout_close_notifies_error_witness:
  "fst (MHDS_connection_handle_idle (example_environment\<lparr>time_now := 1011\<rparr>)
          (example_connection\<lparr>s_state := MHDS_STATE_UNLISTED\<rparr>)) = MHD_NO
   \<and> snd (snd (MHDS_connection_handle_idle (example_environment\<lparr>time_now := 1011\<rparr>)
          (example_connection\<lparr>s_state := MHDS_STATE_UNLISTED\<rparr>)))
      = [Ev_SHUTDOWN 5, Ev_CLOSE 5, Ev_notify_completed MHD_REQUEST_TERMINATED_WITH_ERROR]"
  using idle_timeout_close_notifies_error
          [of "example_environment\<lparr>time_now := 1011\<rparr>"
              "example_connection\<lparr>s_state := MHDS_STATE_UNLISTED\<rparr>"]
  by (simp add: MHDS_connection_handle_idle_def connection_close_error_def
        example_connection_def example_environment_def example_daemon_def split_beta)

text \<open>
  C2 as stated fails: a connection idle for 11 seconds on a daemon with a timeout of 10
  seconds and a registered notifier is closed by the timeout test, and the notifier is
  invoked with \<open>MHD_REQUEST_TERMINATED_WITH_ERROR\<close>; no notification carries
  \<open>MHD_REQUEST_TERMINATED_TIMEOUT_REACHED\<close>.
\<close>

theorem idle_timeout_notifier_code_counterexample:
  "notify_completed (daemon (example_connection\<lparr>s_state := MHDS_STATE_UNLISTED\<rparr>)) \<noteq> None
   \<and> 10 < sint (1011 :: time_t) - sint (last_activity example_connection)
   \<and> MHDS_connection_handle_idle (example_environment\<lparr>time_now := 1011\<rparr>)
        (example_connection\<lparr>s_state := MHDS_STATE_UNLISTED\<rparr>)
      = (MHD_NO,
         example_connection\<lparr>s_state := MHDS_STATE_UNLISTED, socket_fd := - 1,
                            state := MHD_CONNECTION_CLOSED, client_context := 1\<rparr>,
         [Ev_SHUTDOWN 5, Ev_CLOSE 5, Ev_notify_completed MHD_REQUEST_TERMINATED_WITH_ERROR])
   \<and> Ev_notify_completed MHD_REQUEST_TERMINATED_TIMEOUT_REACHED
        \<notin> set (snd (snd (MHDS_connection_handle_idle (example_environment\<lparr>time_now := 1011\<rparr>)
                            (example_connection\<lparr>s_state := MHDS_STATE_UNLISTED\<rparr>))))"
  by (simp add: MHDS_connection_handle_idle_def connection_close_error_def
        example_connection_def example_environment_def example_daemon_def code_number_def
        split_beta)

text \<open>
  The timeout test on its own, as it runs when the \<open>switch\<close> takes its \<open>default\<close>
  branch: with an open socket and a clock that is not negative, the connection is closed
  exactly when the timeout is not 0 and the current time minus \<open>last_activity\<close> exceeds
  it; otherwise the handler returns \<open>MHD_YES\<close> and leaves the connection as it was.
\<close>

lemma idle_timeout_test_unlisted:
  assumes "socket_fd c \<noteq> - 1"
    and "s_state c = MHDS_STATE_UNLISTED"
    and "0 \<le> sint (time_now env)"
  shows "case MHDS_connection_handle_idle env c of
           (r, c', tr) \<Rightarrow>
             (socket_fd c' = - 1 \<longleftrightarrow>
                connection_timeout (daemon c) \<noteq> 0
                \<and> uint (connection_timeout (daemon c))
                    < sint (time_now env) - sint (last_activity c))
             \<and> (if socket_fd c' = - 1
                then r = MHD_NO \<and> state c' = MHD_CONNECTION_CLOSED
                     \<and> Ev_CLOSE (socket_fd c) \<in> set tr
                else r = MHD_YES \<and> c' = c \<and> tr = [])"
proof -
  have "sint (time_now env - ucast (connection_timeout (daemon c)))
          = sint (time_now env) - uint (connection_timeout (daemon c))"
    using assms(3) by (rule sint_deadline)
  then have "sint (last_activity c) < sint (time_now env - ucast (connection_timeout (daemon c)))
      \<longleftrightarrow> uint (connection_timeout (daemon c)) < sint (time_now env) - sint (last_activity c)"
    by linarith
  then show ?thesis
    using assms(1,2) by (simp add: idle_unlisted connection_close_error_fields)
qed

text \<open>
  C3 does not hold of \<open>MHDS_connection_handle_idle\<close>. The claim is that a connection
  with an open socket is never closed for idleness when the timeout is 0, and with a
  timeout \<open>t > 0\<close> is closed by the idle handler exactly when the current time minus
  \<open>last_activity\<close> exceeds \<open>t\<close>. The label \<open>case MHDS_CONNECTION_INIT:\<close>, commented
  \<open>/* wait for request */\<close>, has no \<open>break\<close> and runs into the body that closes an open
  socket. So a connection in sub-state \<open>MHDS_CONNECTION_INIT\<close> on descriptor 5, idle for
  5 seconds, is shut down and closed by the handler on a daemon whose timeout is 10
  seconds, and on one whose timeout is 0 as well; the handler returns \<open>MHD_YES\<close>, the
  timeout test having found no open socket.
\<close>

theorem idle_handler_closes_waiting_connection:
  "socket_fd example_connection \<noteq> - 1
   \<and> s_state example_connection = MHDS_CONNECTION_INIT
   \<and> connection_timeout (daemon example_connection) = 10
   \<and> sint (time_now example_environment) - sint (last_activity example_connection) = 5
   \<and> MHDS_connection_handle_idle example_environment example_connection
      = (MHD_YES,
         example_connection\<lparr>socket_fd := - 1, state := MHD_CONNECTION_CLOSED,
                            client_context := 1\<rparr>,
         [Ev_SHUTDOWN 5, Ev_CLOSE 5, Ev_notify_completed MHD_REQUEST_TERMINATED_WITH_ERROR])
   \<and> MHDS_connection_handle_idle example_environment
        (example_connection\<lparr>daemon := example_daemon\<lparr>connection_timeout := 0\<rparr>\<rparr>)
      = (MHD_YES,
         example_connection\<lparr>daemon := example_daemon\<lparr>connection_timeout := 0\<rparr>,
                            socket_fd := - 1, state := MHD_CONNECTION_CLOSED,
                            client_context := 1\<rparr>,
         [Ev_SHUTDOWN 5, Ev_CLOSE 5, Ev_notify_completed MHD_REQUEST_TERMINATED_WITH_ERROR])"
  by (simp add: MHDS_connection_handle_idle_def close_open_socket_def
        connection_close_error_def example_connection_def example_environment_def
        example_daemon_def code_number_def split_beta)

section \<open>The secure read handler and the handshake\<close>

text \<open>
  C4, as the code has it. The secure read handler calls the HTTP read handler exactly
  when the sub-state is not \<open>MHDS_CONNECTION_CLOSED\<close>, the peek did not fail and the
  peeked record type is application data; the sub-state is not asked whether the handshake
  has completed. When it does not call it: a handshake record whose handshake call returns
  0 sets the HTTP state to \<open>MHD_CONNECTION_INIT\<close> and the sub-state to
  \<open>MHDS_HANDSHAKE_COMPLETE\<close> and returns \<open>MHD_YES\<close>; a handshake call that fails sets
  the sub-state to \<open>MHDS_HANDSHAKE_FAILED\<close> and \<open>socket_fd\<close> to -1, leaves the HTTP
  state alone and returns \<open>MHD_NO\<close>; every other path leaves both states as they were.
\<close>

theorem secure_read_dispatch:
  "case MHDS_connection_handle_read env http_read c of
     (r, c', tr) \<Rightarrow>
       (if s_state c \<noteq> MHDS_CONNECTION_CLOSED \<and> peek_ret env \<noteq> - 1
           \<and> peek_msg_type env = GNUTLS_APPLICATION_DATA
        then Ev_MHD_connection_handle_read \<in> set tr
             \<and> r = fst (http_read (c\<lparr>last_activity := time_now env\<rparr>))
             \<and> c' = fst (snd (http_read (c\<lparr>last_activity := time_now env\<rparr>)))
        else Ev_MHD_connection_handle_read \<notin> set tr
             \<and> (if s_state c \<noteq> MHDS_CONNECTION_CLOSED \<and> peek_ret env \<noteq> - 1
                    \<and> peek_msg_type env = GNUTLS_HANDSHAKE
                 then (if handshake_ret env = 0
                       then r = MHD_YES \<and> state c' = MHD_CONNECTION_INIT
                            \<and> s_state c' = MHDS_HANDSHAKE_COMPLETE
                            \<and> socket_fd c' = socket_fd c
                       else r = MHD_NO \<and> state c' = state c
                            \<and> s_state c' = MHDS_HANDSHAKE_FAILED
                            \<and> socket_fd c' = - 1)
                 else state c' = state c \<and> s_state c' = s_state c))"
  by (simp add: MHDS_connection_handle_read_def handle_alert_def Let_def split_beta
        GNUTLS_CHANGE_CIPHER_SPEC_def GNUTLS_ALERT_def GNUTLS_HANDSHAKE_def
        GNUTLS_APPLICATION_DATA_def GNUTLS_INNER_APPLICATION_def)

theorem secure_read_dispatch_witness:
  "fst (MHDS_connection_handle_read (example_environment\<lparr>peek_msg_type := 22\<rparr>)
          http_read_idle example_connection) = MHD_YES
   \<and> state (fst (snd (MHDS_connection_handle_read (example_environment\<lparr>peek_msg_type := 22\<rparr>)
          http_read_idle example_connection))) = MHD_CONNECTION_INIT
   \<and> s_state (fst (snd (MHDS_connection_handle_read (example_environment\<lparr>peek_msg_type := 22\<rparr>)
          http_read_idle example_connection))) = MHDS_HANDSHAKE_COMPLETE"
  using secure_read_dispatch [where env = "example_environment\<lparr>peek_msg_type := 22\<rparr>"
          and http_read = http_read_idle and c = example_connection]
  by (simp add: example_connection_def example_environment_def GNUTLS_HANDSHAKE_def
        GNUTLS_APPLICATION_DATA_def split_beta)

text \<open>
  C4 as stated fails: on a connection still in sub-state \<open>MHDS_CONNECTION_INIT\<close>, on
  which no handshake has completed, an application-data record makes the secure read
  handler call the HTTP read handler.
\<close>

theorem http_read_before_handshake_counterexample:
  "s_state example_connection = MHDS_CONNECTION_INIT
   \<and> s_state example_connection \<noteq> MHDS_HANDSHAKE_COMPLETE
   \<and> peek_msg_type example_environment = GNUTLS_APPLICATION_DATA
   \<and> MHDS_connection_handle_read example_environment http_read_idle example_connection
      = (MHD_YES, example_connection\<lparr>last_activity := 1005\<rparr>,
         [Ev_recv_peek 5, Ev_MHD_connection_handle_read])"
  by (simp add: MHDS_connection_handle_read_def example_connection_def
        example_environment_def http_read_idle_def GNUTLS_CHANGE_CIPHER_SPEC_def
        GNUTLS_ALERT_def GNUTLS_APPLICATION_DATA_def)

section \<open>The secure transport read\<close>

text \<open>
  C6 does not hold of \<open>MHDS_con_read\<close>: it asks the record layer for up to
  \<open>read_buffer_size\<close> bytes at \<open>&read_buffer[read_buffer_offset]\<close>, not for up to
  \<open>read_buffer_size - read_buffer_offset\<close>. With a buffer of 8 bytes, 4 of them filled,
  and a record layer holding 16 bytes, the call returns 8 and the byte at address 11,
  past the end of the buffer, has been written.
\<close>

theorem MHDS_con_read_past_buffer_end:
  "unat (read_buffer_size (example_connection\<lparr>read_buffer_offset := 4\<rparr>)) = 8
   \<and> fst (MHDS_con_read (record_layer_holding (replicate 16 65))
            (example_connection\<lparr>read_buffer_offset := 4\<rparr>) (\<lambda>a. 0)) = 8
   \<and> snd (MHDS_con_read (record_layer_holding (replicate 16 65))
            (example_connection\<lparr>read_buffer_offset := 4\<rparr>) (\<lambda>a. 0)) 11 = 65"
  by code_simp

section \<open>The content reader\<close>

lemma reader_calls_position:
  "k < length (reader_calls p ns) \<Longrightarrow>
     fst (reader_calls p ns ! k)
       = p + sum_list (map nat (filter (\<lambda>n. 0 \<le> n) (map snd (take k (reader_calls p ns)))))"
proof (induction ns arbitrary: p k)
  case Nil
  then show ?case by simp
next
  case (Cons n ns)
  show ?case
  proof (cases k)
    case 0
    then show ?thesis by simp
  next
    case (Suc j)
    with Cons.prems have neg: "\<not> n < 0" and j: "j < length (reader_calls (p + nat n) ns)"
      by (auto split: if_splits)
    from Cons.IH [OF j] neg Suc show ?thesis by simp
  qed
qed

lemma reader_calls_from:
  "k < length (reader_calls p ns) \<Longrightarrow> p \<le> fst (reader_calls p ns ! k)"
  using reader_calls_position [of k p ns] by simp

lemma reader_calls_monotone:
  "j \<le> k \<Longrightarrow> k < length (reader_calls p ns) \<Longrightarrow>
     fst (reader_calls p ns ! j) \<le> fst (reader_calls p ns ! k)"
proof (induction ns arbitrary: p j k)
  case Nil
  then show ?case by simp
next
  case (Cons n ns)
  show ?case
  proof (cases j)
    case 0
    with reader_calls_from [OF Cons.prems(2)] show ?thesis by simp
  next
    case (Suc j')
    with Cons.prems obtain k' where k: "k = Suc k'" and le: "j' \<le> k'"
      by (cases k) auto
    with Cons.prems have neg: "\<not> n < 0" and len: "k' < length (reader_calls (p + nat n) ns)"
      by (auto split: if_splits)
    from Cons.IH [OF le len] neg Suc k show ?thesis by simp
  qed
qed

text \<open>
  C7. In the calls made to the content reader for one queuing of a callback response,
  starting at position 0, the position passed to call number \<open>k\<close> is the sum of the
  nonnegative values the reader returned in the calls before it. The first call gets
  position 0, and the position never decreases from one call to a later one.
\<close>

theorem reader_position_is_sum:
  assumes "k < length (reader_calls 0 ns)"
  shows "fst (reader_calls 0 ns ! k)
           = sum_list (map nat (filter (\<lambda>n. 0 \<le> n) (map snd (take k (reader_calls 0 ns)))))
         \<and> fst (reader_calls 0 ns ! 0) = 0
         \<and> (\<forall>j\<le>k. fst (reader_calls 0 ns ! j) \<le> fst (reader_calls 0 ns ! k))"
proof (intro conjI allI impI)
  show "fst (reader_calls 0 ns ! k)
           = sum_list (map nat (filter (\<lambda>n. 0 \<le> n) (map snd (take k (reader_calls 0 ns)))))"
    using reader_calls_position [OF assms] by simp
  show "fst (reader_calls 0 ns ! 0) = 0"
    using assms by (cases ns) simp_all
  show "fst (reader_calls 0 ns ! j) \<le> fst (reader_calls 0 ns ! k)" if "j \<le> k" for j
    using that assms by (rule reader_calls_monotone)
qed

theorem reader_position_is_sum_witness:
  "2 < length (reader_calls 0 [4, 0, 3, - 1, 9])
   \<and> reader_calls 0 [4, 0, 3, - 1, 9] = [(0, 4), (4, 0), (4, 3), (7, - 1)]
   \<and> fst (reader_calls 0 [4, 0, 3, - 1, 9] ! 2) = 4
   \<and> fst (reader_calls 0 [4, 0, 3, - 1, 9] ! 1) \<le> fst (reader_calls 0 [4, 0, 3, - 1, 9] ! 2)"
  using reader_position_is_sum [of 2 "[4, 0, 3, - 1, 9]"]
  by simp

section \<open>Queuing a response\<close>

lemma queue_responses_when_queued:
  "response s \<noteq> None \<Longrightarrow> filter (\<lambda>x. x = MHD_YES) (fst (queue_responses s reqs)) = []"
  by (induction reqs arbitrary: s)
     (auto simp: MHD_queue_response_def MHD_YES_def MHD_NO_def split_beta)

lemma queue_responses_at_most_one:
  "length (filter (\<lambda>x. x = MHD_YES) (fst (queue_responses s reqs))) \<le> 1"
proof (cases reqs)
  case Nil
  then show ?thesis by simp
next
  case (Cons q rest)
  obtain st r where q: "q = (st, r)" by (cases q)
  show ?thesis
  proof (cases "response s")
    case None
    then have "response (snd (MHD_queue_response s st r)) \<noteq> None"
      by (simp add: MHD_queue_response_def)
    then have "filter (\<lambda>x. x = MHD_YES)
                 (fst (queue_responses (snd (MHD_queue_response s st r)) rest)) = []"
      by (rule queue_responses_when_queued)
    then show ?thesis using Cons q by (simp add: split_beta)
  next
    case (Some a)
    then have "filter (\<lambda>x. x = MHD_YES) (fst (queue_responses s reqs)) = []"
      by (intro queue_responses_when_queued) simp
    then show ?thesis by simp
  qed
qed

text \<open>
  C5. \<open>MHD_queue_response\<close> returns \<open>MHD_NO\<close> and leaves the session as it is when a
  response is already queued on it, and otherwise returns \<open>MHD_YES\<close> with the response
  and the status code recorded on the session. However many times a handler tries during
  one request, at most one attempt is accepted, so a session never has more than one
  response in flight.
\<close>

theorem queue_response_once:
  "MHD_queue_response s status_code r =
     (if response s = None
      then (MHD_YES, s\<lparr>response := Some r, responseCode := status_code\<rparr>)
      else (MHD_NO, s))
   \<and> length (filter (\<lambda>x. x = MHD_YES) (fst (queue_responses s reqs))) \<le> 1"
proof (intro conjI)
  show "MHD_queue_response s status_code r =
     (if response s = None
      then (MHD_YES, s\<lparr>response := Some r, responseCode := status_code\<rparr>)
      else (MHD_NO, s))"
    by (simp add: MHD_queue_response_def split: option.split)
  show "length (filter (\<lambda>x. x = MHD_YES) (fst (queue_responses s reqs))) \<le> 1"
    by (rule queue_responses_at_most_one)
qed

theorem queue_response_once_witness:
  "MHD_queue_response \<lparr>response = None, responseCode = 0\<rparr> 200 1
     = (MHD_YES, \<lparr>response = Some 1, responseCode = 200\<rparr>)
   \<and> queue_responses \<lparr>response = None, responseCode = 0\<rparr> [(200, 1), (404, 2)]
     = ([MHD_YES, MHD_NO], \<lparr>response = Some 1, responseCode = 200\<rparr>)"
  using queue_response_once
          [of "\<lparr>response = None, responseCode = 0\<rparr>" 200 1 "[(200, 1), (404, 2)]"]
  by (simp add: MHD_queue_response_def)

section \<open>Responses that copy their buffer\<close>

text \<open>A response that borrows its buffer transmits what the buffer holds when it is sent.\<close>

lemma borrowed_transmission_follows_memory:
  "transmitted_bytes mem1 (MHD_create_response_from_data mem0 len data must_free False)
     = map mem1 [data ..< data + len]"
  by (simp add: transmitted_bytes_def MHD_create_response_from_data_def)

text \<open>
  C8. For a response created from a buffer with \<open>must_copy\<close>, the bytes transmitted are
  the same whatever the caller's memory holds at the time of transmission (\<open>mem1\<close> in
  one run, \<open>mem2\<close> in the other): they are the \<open>len\<close> bytes that stood at \<open>data\<close> when
  the response was created.
\<close>

theorem must_copy_transmission:
  "transmitted_bytes mem1 (MHD_create_response_from_data mem0 len data must_free True)
     = transmitted_bytes mem2 (MHD_create_response_from_data mem0 len data must_free True)
   \<and> transmitted_bytes mem1 (MHD_create_response_from_data mem0 len data must_free True)
     = map mem0 [data ..< data + len]"
  by (simp add: transmitted_bytes_def MHD_create_response_from_data_def)

end
